theory Spec2Isabelle
  imports Complex_Main
begin

section \<open>Python values, exceptions and results\<close>

text \<open>
  The widget handles dynamically typed data in two places: the raw rows the storage
  provider returns and the event the embedded UI bundle returns. Both are JSON values,
  modelled by \<open>pyval\<close>; a dict is an association list whose first binding of a key is
  the one a lookup sees.
\<close>

datatype pyval =
    PNone
  | PBool bool
  | PInt int
  | PStr string
  | PDict "(string \<times> pyval) list"

text \<open>
  Instances of Python's \<open>Exception\<close> class, the ones an \<open>except Exception\<close> clause
  catches. The argument is the message (for \<open>KeyError\<close>, the missing key).
\<close>

datatype exn =
    KeyError string
  | TypeError string
  | ValueError string
  | AttributeError string
  | APIError string
  | RequestException string

text \<open>A computation that raises returns \<open>Inl\<close>; \<open>bnd\<close> sequences two of them.\<close>

definition bnd :: "exn + 'a \<Rightarrow> ('a \<Rightarrow> exn + 'b) \<Rightarrow> exn + 'b" where
  "bnd m f = (case m of Inl e \<Rightarrow> Inl e | Inr x \<Rightarrow> f x)"

text \<open>\<open>d[k]\<close> on a dict: \<open>KeyError\<close> when the key is absent.\<close>

definition getitem :: "(string \<times> pyval) list \<Rightarrow> string \<Rightarrow> exn + pyval" where
  "getitem d k = (case map_of d k of None \<Rightarrow> Inl (KeyError k) | Some v \<Rightarrow> Inr v)"

text \<open>\<open>s.endswith(suffix)\<close> on strings.\<close>

definition endswith :: "string \<Rightarrow> string \<Rightarrow> bool" where
  "endswith s suffix =
     (length suffix \<le> length s \<and> drop (length s - length suffix) s = suffix)"

section \<open>Shell-style matching: \<open>fnmatch.fnmatch\<close>\<close>

text \<open>
  \<open>fnmatch.fnmatch(name, pat)\<close> on a POSIX host (\<open>os.path.normcase\<close> is the identity
  there) translates the pattern to a regular expression and asks for a full match. The
  translation reads the pattern left to right: \<open>*\<close> matches any run of characters (the
  path separator included), \<open>?\<close> any one character, \<open>[seq]\<close> any character of
  \<open>seq\<close>, \<open>[!seq]\<close> any character not in it, a \<open>[\<close> without its closing \<open>]\<close> is a
  literal, and every other character matches itself. Characters are compared by code.
\<close>

datatype token =
    TStar
  | TAny
  | TLit char
  | TClass bool "(char \<times> char) list"

text \<open>
  The closing bracket of a class, as \<open>translate\<close> looks for it from the character after
  \<open>[\<close>: a leading \<open>!\<close> and then a leading \<open>]\<close> belong to the class, the next \<open>]\<close>
  closes it. The result is the text between the brackets, \<open>None\<close> when nothing closes.
\<close>

definition find_close :: "string \<Rightarrow> string option" where
  "find_close cs =
     (let pre1 = (if cs \<noteq> [] \<and> hd cs = CHR ''!'' then [CHR ''!''] else []);
          r1 = drop (length pre1) cs;
          pre2 = (if r1 \<noteq> [] \<and> hd r1 = CHR '']'' then [CHR '']''] else []);
          r2 = drop (length pre2) r1;
          body = takeWhile (\<lambda>c. c \<noteq> CHR '']'') r2
      in if length body < length r2 then Some (pre1 @ pre2 @ body) else None)"

text \<open>
  The members of a class: \<open>a-b\<close> is the range from \<open>a\<close> to \<open>b\<close> (empty when
  \<open>a > b\<close>: \<open>translate\<close> removes such a range), a hyphen that cannot be the middle of
  a range is a member itself.
\<close>

fun ranges :: "string \<Rightarrow> (char \<times> char) list" where
  "ranges [] = []"
| "ranges [a] = [(a, a)]"
| "ranges [a, b] = [(a, a), (b, b)]"
| "ranges (a # b # c # cs) =
     (if b = CHR ''-'' then (a, c) # ranges cs else (a, a) # ranges (b # c # cs))"

definition class_token :: "string \<Rightarrow> token" where
  "class_token stuff =
     (if stuff \<noteq> [] \<and> hd stuff = CHR ''!'' then TClass True (ranges (tl stuff))
      else TClass False (ranges stuff))"

text \<open>
  \<open>translate_from k pat\<close> skips \<open>k\<close> characters (the class just read) and translates
  the rest; consecutive stars are compressed into one.
\<close>

fun translate_from :: "nat \<Rightarrow> string \<Rightarrow> token list" where
  "translate_from k [] = []"
| "translate_from (Suc k) (c # cs) = translate_from k cs"
| "translate_from 0 (c # cs) =
     (if c = CHR ''*'' then
        (case translate_from 0 cs of
           TStar # ts \<Rightarrow> TStar # ts
         | ts \<Rightarrow> TStar # ts)
      else if c = CHR ''?'' then TAny # translate_from 0 cs
      else if c = CHR ''['' then
        (case find_close cs of
           None \<Rightarrow> TLit c # translate_from 0 cs
         | Some stuff \<Rightarrow> class_token stuff # translate_from (Suc (length stuff)) cs)
      else TLit c # translate_from 0 cs)"

definition translate :: "string \<Rightarrow> token list" where
  "translate pat = translate_from 0 pat"

definition in_class :: "(char \<times> char) list \<Rightarrow> char \<Rightarrow> bool" where
  "in_class rs c =
     (\<exists>r \<in> set rs. (of_char (fst r) :: nat) \<le> of_char c \<and> (of_char c :: nat) \<le> of_char (snd r))"

fun token_matches :: "token \<Rightarrow> char \<Rightarrow> bool" where
  "token_matches TStar c = True"
| "token_matches TAny c = True"
| "token_matches (TLit l) c = (c = l)"
| "token_matches (TClass neg rs) c = (if neg then \<not> in_class rs c else in_class rs c)"

fun full_match :: "token list \<Rightarrow> string \<Rightarrow> bool" where
  "full_match [] s = (s = [])"
| "full_match (t # ts) [] = (t = TStar \<and> full_match ts [])"
| "full_match (t # ts) (c # cs) =
     (if t = TStar then full_match ts (c # cs) \<or> full_match (t # ts) cs
      else token_matches t c \<and> full_match ts cs)"

definition fnmatch :: "string \<Rightarrow> string \<Rightarrow> bool" where
  "fnmatch name pat = full_match (translate pat) name"

section \<open>File records and the Record Translator\<close>

text \<open>
  The \<open>File\<close> TypedDict. The values are the ones the row held: nothing checks that
  \<open>path\<close> is a string or \<open>size\<close> a number. The times are Python floats, modelled by
  exact rationals.
\<close>

record File =
  path :: pyval
  size_bytes :: pyval
  create_time :: rat
  update_time :: rat
  access_time :: rat

text \<open>
  \<open>datetime.fromisoformat(v).timestamp()\<close>: the parser of the standard library is a
  parameter (\<open>parse\<close>, from the text to the Unix-epoch value or the \<open>ValueError\<close> it
  raises); an argument that is not a string is a \<open>TypeError\<close>.
\<close>

definition fromisoformat_timestamp :: "(string \<Rightarrow> exn + rat) \<Rightarrow> pyval \<Rightarrow> exn + rat" where
  "fromisoformat_timestamp parse v =
     (case v of
        PStr s \<Rightarrow> parse s
      | _ \<Rightarrow> Inl (TypeError ''fromisoformat: argument must be str''))"

text \<open>
  \<open>translate_storage_file\<close>: the keyword arguments are evaluated in the order they are
  written (\<open>path\<close>, \<open>size\<close>, \<open>access_time\<close>, \<open>create_time\<close>, \<open>update_time\<close>), so the
  first missing key or malformed timestamp in that order is the exception raised.
\<close>

definition translate_storage_file ::
    "(string \<Rightarrow> exn + rat) \<Rightarrow> (string \<times> pyval) list \<Rightarrow> exn + File" where
  "translate_storage_file parse storage_file =
     bnd (getitem storage_file ''name'') (\<lambda>p.
     bnd (getitem storage_file ''size'') (\<lambda>sz.
     bnd (bnd (getitem storage_file ''last_accessed_at'') (fromisoformat_timestamp parse)) (\<lambda>a.
     bnd (bnd (getitem storage_file ''created_at'') (fromisoformat_timestamp parse)) (\<lambda>c.
     bnd (bnd (getitem storage_file ''updated_at'') (fromisoformat_timestamp parse)) (\<lambda>u.
     Inr \<lparr>path = p, size_bytes = sz, create_time = c / 1000, update_time = u / 1000,
          access_time = a / 1000\<rparr>)))))"

section \<open>The Glob Filter\<close>

text \<open>
  \<open>filter_func\<close> of \<open>Bucket.list\<close>: \<open>any(fnmatch.fnmatch(file['path'], pattern) for
  pattern in glob_patterns)\<close>. The generator stops at the first pattern that matches;
  \<open>fnmatch\<close> raises \<open>TypeError\<close> on a path that is not a string.
\<close>

fun filter_func :: "string list \<Rightarrow> File \<Rightarrow> exn + bool" where
  "filter_func [] file = Inr False"
| "filter_func (pattern # glob_patterns) file =
     (case path file of
        PStr s \<Rightarrow> if fnmatch s pattern then Inr True else filter_func glob_patterns file
      | _ \<Rightarrow> Inl (TypeError ''expected str, bytes or os.PathLike object''))"

text \<open>
  \<open>tuple(filter(p, map(t, xs)))\<close>. Both iterators are lazy: each element is translated
  and then tested before the next one is read, so the exception raised is the one of the
  first element that fails either step.
\<close>

fun tuple_filter_map :: "('b \<Rightarrow> exn + bool) \<Rightarrow> ('a \<Rightarrow> exn + 'b) \<Rightarrow> 'a list \<Rightarrow> exn + 'b list" where
  "tuple_filter_map p t [] = Inr []"
| "tuple_filter_map p t (x # xs) =
     (case t x of
        Inl e \<Rightarrow> Inl e
      | Inr y \<Rightarrow>
          (case p y of
             Inl e \<Rightarrow> Inl e
           | Inr keep \<Rightarrow>
               (case tuple_filter_map p t xs of
                  Inl e \<Rightarrow> Inl e
                | Inr ys \<Rightarrow> Inr (if keep then y # ys else ys))))"

text \<open>The glob-filter stage on records that are already translated.\<close>

definition glob_filter :: "string list \<Rightarrow> File list \<Rightarrow> exn + File list" where
  "glob_filter glob_patterns files = tuple_filter_map (filter_func glob_patterns) Inr files"

text \<open>The default patterns of \<open>Bucket.list\<close> and of \<open>st_supabase_storage_browser\<close>.\<close>

definition list_default_glob_patterns :: "string list" where
  "list_default_glob_patterns = [''*/**'']"

definition browser_default_glob_patterns :: "string list" where
  "browser_default_glob_patterns = [''**/*'']"

section \<open>The storage provider and the Query Builder\<close>

text \<open>
  The injected client and the catalogue behind it. \<open>objects\<close> are the stored rows of
  \<open>storage.objects\<close> (column name to value); \<open>sql_like value pattern\<close> is the
  provider's \<open>LIKE\<close> operator and \<open>sql_order\<close> its ordering, both taken as they are;
  \<open>failure\<close> is the exception every execution raises when the provider cannot be
  reached.
\<close>

record provider =
  storage_url :: string
  objects :: "(string \<times> pyval) list list"
  sql_like :: "string \<Rightarrow> string \<Rightarrow> bool"
  sql_order :: "(string \<times> pyval) list \<Rightarrow> (string \<times> pyval) list list \<Rightarrow> exn + (string \<times> pyval) list list"
  failure :: "exn option"

datatype cond =
    Eq string pyval
  | Like string string
  | LikeAnyOf string string

record request =
  columns :: "string list"
  conds :: "cond list"
  req_limit :: "int option"
  req_offset :: "int option"
  req_order :: "(string \<times> pyval) list option"

fun split_on :: "char \<Rightarrow> string \<Rightarrow> string list" where
  "split_on sep [] = [[]]"
| "split_on sep (c # cs) =
     (if c = sep then [] # split_on sep cs
      else (case split_on sep cs of
              [] \<Rightarrow> [[c]]
            | w # ws \<Rightarrow> (c # w) # ws))"

fun join :: "string \<Rightarrow> string list \<Rightarrow> string" where
  "join sep [] = []"
| "join sep [x] = x"
| "join sep (x # y # ys) = x @ sep @ join sep (y # ys)"

definition column_value :: "(string \<times> pyval) list \<Rightarrow> string \<Rightarrow> pyval" where
  "column_value row c = (case map_of row c of None \<Rightarrow> PNone | Some v \<Rightarrow> v)"

fun row_ok :: "(string \<Rightarrow> string \<Rightarrow> bool) \<Rightarrow> (string \<times> pyval) list \<Rightarrow> cond \<Rightarrow> bool" where
  "row_ok like row (Eq c v) = (column_value row c = v)"
| "row_ok like row (Like c pat) =
     (case column_value row c of PStr s \<Rightarrow> like s pat | _ \<Rightarrow> False)"
| "row_ok like row (LikeAnyOf c pats) =
     (case column_value row c of
        PStr s \<Rightarrow> list_ex (like s) (split_on CHR '','' pats)
      | _ \<Rightarrow> False)"

text \<open>
  A selected column: a plain column under its own name, \<open>metadata->size\<close> as the key
  \<open>size\<close> of the JSON column \<open>metadata\<close> under the name \<open>size\<close>.
\<close>

definition select_column :: "(string \<times> pyval) list \<Rightarrow> string \<Rightarrow> string \<times> pyval" where
  "select_column row c =
     (if c = ''metadata->size'' then
        (''size'', (case column_value row ''metadata'' of
                      PDict m \<Rightarrow> column_value m ''size''
                    | _ \<Rightarrow> PNone))
      else (c, column_value row c))"

definition matching_rows :: "provider \<Rightarrow> cond list \<Rightarrow> (string \<times> pyval) list list" where
  "matching_rows p cs = filter (\<lambda>row. list_all (row_ok (sql_like p) row) cs) (objects p)"

definition paginate :: "int option \<Rightarrow> int option \<Rightarrow> 'a list \<Rightarrow> 'a list" where
  "paginate n_limit n_offset rows =
     (let rows1 = (case n_offset of None \<Rightarrow> rows | Some k \<Rightarrow> drop (nat k) rows)
      in (case n_limit of None \<Rightarrow> rows1 | Some n \<Rightarrow> take (nat n) rows1))"

text \<open>\<open>request.execute().data\<close>: one round trip, the rows that satisfy every condition.\<close>

definition execute :: "provider \<Rightarrow> request \<Rightarrow> exn + (string \<times> pyval) list list" where
  "execute p q =
     (case failure p of
        Some e \<Rightarrow> Inl e
      | None \<Rightarrow>
          bnd (case req_order q of
                 None \<Rightarrow> Inr (matching_rows p (conds q))
               | Some spec \<Rightarrow> sql_order p spec (matching_rows p (conds q)))
            (\<lambda>rows. Inr (map (\<lambda>row. map (select_column row) (columns q))
                               (paginate (req_limit q) (req_offset q) rows))))"

text \<open>
  \<open>request.maybe_single().execute()\<close>: \<open>None\<close> for no row, the response for one row,
  an \<open>APIError\<close> for more than one.
\<close>

definition maybe_single_execute :: "provider \<Rightarrow> request \<Rightarrow> exn + (string \<times> pyval) list option" where
  "maybe_single_execute p q =
     bnd (execute p q) (\<lambda>rows.
       case rows of
         [] \<Rightarrow> Inr None
       | [row] \<Rightarrow> Inr (Some row)
       | _ \<Rightarrow> Inl (APIError ''Missing response''))"

section \<open>Bucket\<close>

record Bucket =
  bucket_supabase :: provider
  bucket_id :: string
  bucket_path :: "string option"
  bucket_extensions :: "string list"

text \<open>\<open>Bucket.__init__\<close>: \<open>extensions or ()\<close>.\<close>

definition Bucket_init :: "provider \<Rightarrow> string \<Rightarrow> string option \<Rightarrow> string list option \<Rightarrow> Bucket" where
  "Bucket_init supabase bid p extensions =
     \<lparr>bucket_supabase = supabase, bucket_id = bid, bucket_path = p,
      bucket_extensions = (case extensions of None \<Rightarrow> [] | Some es \<Rightarrow> es)\<rparr>"

definition public_url :: "Bucket \<Rightarrow> string" where
  "public_url b = storage_url (bucket_supabase b) @ ''/object/public/'' @ bucket_id b @ ''/''"

text \<open>\<open>Bucket._query\<close>.\<close>

definition query :: "Bucket \<Rightarrow> request" where
  "query b =
     (let bucket = \<lparr>columns = [''name'', ''created_at'', ''updated_at'', ''last_accessed_at'',
                               ''metadata->size''],
                    conds = [Eq ''bucket_id'' (PStr (bucket_id b))],
                    req_limit = None, req_offset = None, req_order = None\<rparr>;
          bucket1 = (case bucket_path b of
                       None \<Rightarrow> bucket
                     | Some p \<Rightarrow> bucket\<lparr>conds := conds bucket @ [Like ''name'' (p @ ''%'')]\<rparr>);
          bucket2 = (if bucket_extensions b \<noteq> [] then
                       bucket1\<lparr>conds := conds bucket1 @
                         [LikeAnyOf ''name''
                            (join '','' (map (\<lambda>extension. ''%'' @ extension) (bucket_extensions b)))]\<rparr>
                     else bucket1)
      in bucket2)"

text \<open>\<open>Bucket.list\<close>. \<open>if order_by:\<close> is false for \<open>None\<close> and for the empty dict.\<close>

definition Bucket_list ::
    "(string \<Rightarrow> exn + rat) \<Rightarrow> Bucket \<Rightarrow> string list \<Rightarrow> int option \<Rightarrow> int option \<Rightarrow>
     (string \<times> pyval) list option \<Rightarrow> exn + File list" where
  "Bucket_list parse b glob_patterns n_limit n_offset order_by =
     (let q = query b;
          q1 = (case n_limit of None \<Rightarrow> q | Some n \<Rightarrow> q\<lparr>req_limit := Some n\<rparr>);
          q2 = (case n_offset of None \<Rightarrow> q1 | Some k \<Rightarrow> q1\<lparr>req_offset := Some k\<rparr>);
          q3 = (case order_by of
                  None \<Rightarrow> q2
                | Some spec \<Rightarrow> if spec \<noteq> [] then q2\<lparr>req_order := Some spec\<rparr> else q2)
      in bnd (execute (bucket_supabase b) q3) (\<lambda>raw_files.
           tuple_filter_map (filter_func glob_patterns) (translate_storage_file parse) raw_files))"

text \<open>\<open>Bucket.exists\<close>: the truth value of the response of the single-row probe.\<close>

definition Bucket_exists :: "Bucket \<Rightarrow> string \<Rightarrow> exn + bool" where
  "Bucket_exists b p =
     bnd (maybe_single_execute (bucket_supabase b)
            ((query b)\<lparr>conds := conds (query b) @ [Eq ''name'' (PStr p)]\<rparr>))
       (\<lambda>response. Inr (response \<noteq> None))"

section \<open>The preview handler registry\<close>

text \<open>
  A handler is a Python callable, known by its identity: the nine previewers of the
  module and the callables a caller passes as overrides.
\<close>

datatype handler =
    do_json_preview
  | do_pdf_preview
  | do_csv_preview
  | do_tsv_preview
  | do_plain_preview
  | do_markdown_preview
  | do_code_preview
  | do_html_preview
  | do_dbn_preview
  | caller_handler nat

text \<open>The declarative list the registry is built from, in the order it is written.\<close>

definition PREVIEW_HANDLERS_pairs :: "(string list \<times> handler) list" where
  "PREVIEW_HANDLERS_pairs =
     [([''.json''], do_json_preview),
      ([''.pdf''], do_pdf_preview),
      ([''.csv''], do_csv_preview),
      ([''.tsv''], do_tsv_preview),
      ([''.log'', ''.txt'', ''.md'', ''.upf'', ''.UPF'', ''.orb''], do_plain_preview),
      ([''.md''], do_markdown_preview),
      ([''.py'', ''.sh''], do_code_preview),
      ([''.html'', ''.htm''], do_html_preview),
      ([''.dbn''], do_dbn_preview)]"

text \<open>
  The dict comprehension \<open>{extention: handler for extentions, handler in pairs for
  extention in extentions}\<close>: the pairs are visited in order and each extension is
  stored under its key, a later store replacing an earlier one.
\<close>

definition dict_comprehension :: "(string list \<times> 'h) list \<Rightarrow> (string \<rightharpoonup> 'h)" where
  "dict_comprehension pairs =
     fold (\<lambda>(extention, h) d. d(extention \<mapsto> h))
       (concat (map (\<lambda>(extentions, h). map (\<lambda>extention. (extention, h)) extentions) pairs))
       Map.empty"

definition PREVIEW_HANDLERS :: "string \<rightharpoonup> handler" where
  "PREVIEW_HANDLERS = dict_comprehension PREVIEW_HANDLERS_pairs"

section \<open>Effects and the world\<close>

text \<open>
  What a run does besides returning: the calls of the rendering primitives, the fetch of
  the Preview Dispatcher's fallback path, and the call of a handler with everything the
  handler rendered nested inside it.
\<close>

datatype effect =
    st_container
  | st_expander string
  | st_error string
  | st_exception exn
  | st_warning string
  | st_info string
  | st_image string
  | st_video "string option" string
  | st_audio string string
  | requests_get_content "string option"
  | handler_call handler "string option" "(string \<times> pyval) list" "effect list"

text \<open>
  The dict objects of the process live in a store: \<open>dicts w r\<close> is the content of the
  dict at reference \<open>r\<close>, \<open>next_ref\<close> the next free reference. The module global
  \<open>PREVIEW_HANDLERS\<close> is bound to the dict at \<open>PREVIEW_HANDLERS_ref\<close>.
\<close>

record world =
  dicts :: "nat \<Rightarrow> (string \<rightharpoonup> handler)"
  next_ref :: nat
  trace :: "effect list"

definition PREVIEW_HANDLERS_ref :: nat where
  "PREVIEW_HANDLERS_ref = 0"

text \<open>The world after the module is loaded.\<close>

definition loaded_world :: world where
  "loaded_world =
     \<lparr>dicts = (\<lambda>r. if r = PREVIEW_HANDLERS_ref then PREVIEW_HANDLERS else Map.empty),
      next_ref = Suc PREVIEW_HANDLERS_ref,
      trace = []\<rparr>"

definition emit :: "effect list \<Rightarrow> world \<Rightarrow> world" where
  "emit es w = w\<lparr>trace := trace w @ es\<rparr>"

text \<open>\<open>copy.copy(d)\<close> on a dict: a new dict object with the same bindings.\<close>

definition copy_copy :: "nat \<Rightarrow> world \<Rightarrow> nat \<times> world" where
  "copy_copy r w =
     (next_ref w, w\<lparr>dicts := (dicts w)(next_ref w := dicts w r), next_ref := Suc (next_ref w)\<rparr>)"

text \<open>\<open>d.update(m)\<close>: the dict object at \<open>r\<close> is changed in place.\<close>

definition dict_update :: "nat \<Rightarrow> (string \<rightharpoonup> handler) \<Rightarrow> world \<Rightarrow> world" where
  "dict_update r m w = w\<lparr>dicts := (dicts w)(r := dicts w r ++ m)\<rparr>"

section \<open>External collaborators\<close>

text \<open>The arguments the embedded UI bundle is called with.\<close>

record component_args =
  arg_files :: "File list"
  arg_show_choose_file :: bool
  arg_show_choose_folder :: bool
  arg_show_download_file :: bool
  arg_show_upload_file :: bool
  arg_show_delete_file :: bool
  arg_show_new_folder :: bool
  arg_show_rename_file :: bool
  arg_show_rename_folder :: bool
  arg_ignore_file_select_event :: bool
  arg_artifacts_download_site :: string
  arg_artifacts_site :: string
  arg_key :: "string option"

text \<open>
  Code outside the repository, taken as it is: the timestamp parser, \<open>urljoin\<close>,
  \<open>requests.get(url).content\<close>, the three sniffers of \<open>filetype\<close> (the MIME type of
  the match, \<open>None\<close> for no match), the body of a handler (what it renders and the
  exception it ends with, if any) and the UI bundle (the event it returns, \<open>PNone\<close> for
  no event).
\<close>

record externals =
  parse_timestamp :: "string \<Rightarrow> exn + rat"
  urljoin :: "string \<Rightarrow> string \<Rightarrow> string"
  requests_get :: "string option \<Rightarrow> exn + string"
  image_match :: "string \<Rightarrow> exn + string option"
  video_match :: "string \<Rightarrow> exn + string option"
  audio_match :: "string \<Rightarrow> exn + string option"
  handler_run :: "handler \<Rightarrow> string option \<Rightarrow> (string \<times> pyval) list \<Rightarrow> effect list \<times> exn option"
  component_func :: "component_args \<Rightarrow> pyval"

section \<open>The Preview Dispatcher\<close>

text \<open>
  \<open>os.path.splitext(p)[1]\<close> on a POSIX host: the text from the last dot of the last
  path component, empty when that component has no dot or only dots before it.
\<close>

definition splitext_ext :: "string \<Rightarrow> string" where
  "splitext_ext p =
     (let r = takeWhile (\<lambda>c. c \<noteq> CHR ''/'') (rev p);
          suf = takeWhile (\<lambda>c. c \<noteq> CHR ''.'') r;
          rest = dropWhile (\<lambda>c. c \<noteq> CHR ''.'') r
      in if rest \<noteq> [] \<and> list_ex (\<lambda>c. c \<noteq> CHR ''.'') (tl rest) then CHR ''.'' # rev suf else [])"

text \<open>
  \<open>show_file_preview\<close>. The result is the world after the call and the exception that
  left the function, if one did. Only the call of the handler stands inside the
  \<open>try\<close>; the fetch and the sniffers of the \<open>else\<close> branch stand outside it.
\<close>

definition show_file_preview ::
    "externals \<Rightarrow> string \<Rightarrow> string option \<Rightarrow> (string \<rightharpoonup> handler) option \<Rightarrow>
     (string \<times> pyval) list \<Rightarrow> world \<Rightarrow> world \<times> exn option" where
  "show_file_preview X target_path artifacts_site overide_preview_handles kwargs w =
     (let w1 = emit [st_container] w;
          url = (case artifacts_site of
                   None \<Rightarrow> None
                 | Some site \<Rightarrow> if site \<noteq> [] then Some (urljoin X site target_path) else None);
          ext = splitext_ext target_path;
          (handles, w2) = copy_copy PREVIEW_HANDLERS_ref w1;
          w3 = dict_update handles
                 (case overide_preview_handles of None \<Rightarrow> Map.empty | Some m \<Rightarrow> m) w2
      in case dicts w3 handles ext of
           Some h \<Rightarrow>
             (case handler_run X h url kwargs of
                (out, None) \<Rightarrow> (emit [handler_call h url kwargs out] w3, None)
              | (out, Some e) \<Rightarrow>
                  (emit [handler_call h url kwargs out,
                         st_error (''failed preview '' @ target_path),
                         st_exception e] w3, None))
         | None \<Rightarrow>
             (let w4 = emit [requests_get_content url] w3
              in case requests_get X url of
                   Inl e \<Rightarrow> (w4, Some e)
                 | Inr content \<Rightarrow>
                     (case image_match X content of
                        Inl e \<Rightarrow> (w4, Some e)
                      | Inr (Some ft) \<Rightarrow> (emit [st_image content] w4, None)
                      | Inr None \<Rightarrow>
                          (case video_match X content of
                             Inl e \<Rightarrow> (w4, Some e)
                           | Inr (Some mime) \<Rightarrow> (emit [st_video url mime] w4, None)
                           | Inr None \<Rightarrow>
                               (case audio_match X content of
                                  Inl e \<Rightarrow> (w4, Some e)
                                | Inr (Some mime) \<Rightarrow> (emit [st_audio content mime] w4, None)
                                | Inr None \<Rightarrow>
                                    (emit [st_info (''No preview available for '' @ ext)] w4,
                                     None))))))"

section \<open>The Widget Orchestrator\<close>

text \<open>The keyword options of \<open>st_supabase_storage_browser\<close> and their defaults.\<close>

record options =
  opt_show_preview :: bool
  opt_show_preview_top :: bool
  opt_glob_patterns :: "string list"
  opt_ignore_file_select_event :: bool
  opt_file_ignores :: "string list option"
  opt_select_filetype_ignores :: "string list option"
  opt_extentions :: "string list option"
  opt_show_delete_file :: bool
  opt_show_choose_file :: bool
  opt_show_choose_folder :: bool
  opt_show_download_file :: bool
  opt_show_new_folder :: bool
  opt_show_upload_file :: bool
  opt_show_rename_file :: bool
  opt_show_rename_folder :: bool
  opt_limit :: "int option"
  opt_offset :: "int option"
  opt_key :: "string option"
  opt_use_cache :: bool
  opt_overide_preview_handles :: "(string \<rightharpoonup> handler) option"
  opt_sort :: "(string \<times> pyval) list option"

definition default_options :: options where
  "default_options =
     \<lparr>opt_show_preview = True, opt_show_preview_top = False,
      opt_glob_patterns = browser_default_glob_patterns,
      opt_ignore_file_select_event = False, opt_file_ignores = None,
      opt_select_filetype_ignores = None, opt_extentions = None,
      opt_show_delete_file = False, opt_show_choose_file = False,
      opt_show_choose_folder = False, opt_show_download_file = True,
      opt_show_new_folder = False, opt_show_upload_file = False,
      opt_show_rename_file = False, opt_show_rename_folder = False,
      opt_limit = None, opt_offset = None, opt_key = None, opt_use_cache = False,
      opt_overide_preview_handles = None, opt_sort = None\<rparr>"

text \<open>\<open>v[k]\<close> on a value of the event: only a dict has string keys.\<close>

definition subscript :: "pyval \<Rightarrow> string \<Rightarrow> exn + pyval" where
  "subscript v k =
     (case v of
        PDict d \<Rightarrow> getitem d k
      | PStr s \<Rightarrow> Inl (TypeError ''string indices must be integers'')
      | _ \<Rightarrow> Inl (TypeError ''object is not subscriptable''))"

text \<open>\<open>v.endswith(ft)\<close>: only a string has the method.\<close>

definition value_endswith :: "pyval \<Rightarrow> string \<Rightarrow> exn + bool" where
  "value_endswith v ft =
     (case v of
        PStr s \<Rightarrow> Inr (endswith s ft)
      | _ \<Rightarrow> Inl (AttributeError ''endswith''))"

text \<open>
  \<open>any(event["target"]["path"].endswith(ft) for ft in fts)\<close>: the element expression
  is evaluated once per \<open>ft\<close>, so over an empty \<open>fts\<close> the event is never read.
\<close>

fun any_endswith :: "(string \<times> pyval) list \<Rightarrow> string list \<Rightarrow> exn + bool" where
  "any_endswith event [] = Inr False"
| "any_endswith event (ft # fts) =
     bnd (getitem event ''target'') (\<lambda>target.
     bnd (subscript target ''path'') (\<lambda>p.
     bnd (value_endswith p ft) (\<lambda>hit.
     if hit then Inr True else any_endswith event fts)))"

text \<open>
  The condition of the \<open>if\<close>: \<open>isinstance(event, dict) and event.get('type') ==
  'SELECT_FILE' and not any(... for ft in select_filetype_ignores or [])\<close>.
\<close>

definition select_condition :: "pyval \<Rightarrow> string list option \<Rightarrow> exn + bool" where
  "select_condition event select_filetype_ignores =
     (case event of
        PDict d \<Rightarrow>
          if map_of d ''type'' = Some (PStr ''SELECT_FILE'') then
            bnd (any_endswith d (case select_filetype_ignores of None \<Rightarrow> [] | Some fts \<Rightarrow> fts))
              (\<lambda>ignored. Inr (\<not> ignored))
          else Inr False
      | _ \<Rightarrow> Inr False)"

text \<open>
  \<open>file['path']\<close> where the code needs the path as text (the argument of
  \<open>Bucket.exists\<close>, of the warning and of \<open>show_file_preview\<close>). The UI bundle sends a
  string; any other value is outside its contract and is modelled as a \<open>TypeError\<close> at
  this first use.
\<close>

definition path_text :: "pyval \<Rightarrow> exn + string" where
  "path_text v = (case v of PStr s \<Rightarrow> Inr s | _ \<Rightarrow> Inl (TypeError ''path is not a str''))"

definition component_arguments :: "options \<Rightarrow> Bucket \<Rightarrow> File list \<Rightarrow> component_args" where
  "component_arguments opts bucket files =
     \<lparr>arg_files = files,
      arg_show_choose_file = opt_show_choose_file opts,
      arg_show_choose_folder = opt_show_choose_folder opts,
      arg_show_download_file = opt_show_download_file opts,
      arg_show_upload_file = opt_show_upload_file opts,
      arg_show_delete_file = opt_show_delete_file opts,
      arg_show_new_folder = opt_show_new_folder opts,
      arg_show_rename_file = opt_show_rename_file opts,
      arg_show_rename_folder = opt_show_rename_folder opts,
      arg_ignore_file_select_event = opt_ignore_file_select_event opts,
      arg_artifacts_download_site = public_url bucket,
      arg_artifacts_site = public_url bucket,
      arg_key = opt_key opts\<rparr>"

text \<open>
  The body of the \<open>if\<close>, for a dict event: the existence check, the warning for a
  stale selection, the preview. The result is the world and either the exception that
  left the function or the value returned.
\<close>

definition select_file :: "externals \<Rightarrow> options \<Rightarrow> Bucket \<Rightarrow> pyval \<Rightarrow> world \<Rightarrow> world \<times> (exn + pyval)" where
  "select_file X opts bucket event w =
     (case bnd (subscript event ''target'') (\<lambda>file. bnd (subscript file ''path'') path_text) of
        Inl e \<Rightarrow> (w, Inl e)
      | Inr p \<Rightarrow>
          (case Bucket_exists bucket p of
             Inl e \<Rightarrow> (w, Inl e)
           | Inr False \<Rightarrow> (emit [st_warning (''File '' @ p @ '' not found'')] w, Inr event)
           | Inr True \<Rightarrow>
               if opt_show_preview opts then
                 (case show_file_preview X p (Some (public_url bucket))
                         (opt_overide_preview_handles opts) [] (emit [st_expander []] w) of
                    (w', Some e) \<Rightarrow> (w', Inl e)
                  | (w', None) \<Rightarrow> (w', Inr event))
               else (w, Inr event)))"

text \<open>\<open>st_supabase_storage_browser\<close>.\<close>

definition st_supabase_storage_browser ::
    "externals \<Rightarrow> provider \<Rightarrow> string \<Rightarrow> string option \<Rightarrow> options \<Rightarrow> world \<Rightarrow> world \<times> (exn + pyval)" where
  "st_supabase_storage_browser X supabase bid p opts w =
     (let bucket = Bucket_init supabase bid p (opt_extentions opts)
      in case Bucket_list (parse_timestamp X) bucket (opt_glob_patterns opts)
                (opt_limit opts) (opt_offset opts) (opt_sort opts) of
           Inl e \<Rightarrow> (w, Inl e)
         | Inr files \<Rightarrow>
             (let w1 = (if opt_show_preview opts \<and> opt_show_preview_top opts
                        then emit [st_container] w else w);
                  event = component_func X (component_arguments opts bucket files)
              in case select_condition event (opt_select_filetype_ignores opts) of
                   Inl e \<Rightarrow> (w1, Inl e)
                 | Inr True \<Rightarrow> select_file X opts bucket event w1
                 | Inr False \<Rightarrow> (w1, Inr event)))"

section \<open>The properties as the specification words them\<close>

text \<open>
  "The record's path matches at least one pattern": the path is text and some pattern
  of the sequence matches it.
\<close>

definition spec_matches_some_pattern :: "string list \<Rightarrow> File \<Rightarrow> bool" where
  "spec_matches_some_pattern P f =
     (case path f of PStr s \<Rightarrow> list_ex (fnmatch s) P | _ \<Rightarrow> False)"

text \<open>A File record as the TypedDict declares it: its path is text.\<close>

definition has_text_path :: "File \<Rightarrow> bool" where
  "has_text_path f = (case path f of PStr s \<Rightarrow> True | _ \<Rightarrow> False)"

text \<open>
  "The global registry with the overrides merged on top": the bindings of the dict the
  module global names, replaced by the caller's where the keys collide.
\<close>

definition effective_handlers :: "world \<Rightarrow> (string \<rightharpoonup> handler) option \<Rightarrow> (string \<rightharpoonup> handler)" where
  "effective_handlers w overide_preview_handles =
     dicts w PREVIEW_HANDLERS_ref ++ (case overide_preview_handles of None \<Rightarrow> Map.empty | Some m \<Rightarrow> m)"

text \<open>What a call added to the trace.\<close>

definition emitted :: "world \<Rightarrow> world \<Rightarrow> effect list" where
  "emitted w w' = drop (length (trace w)) (trace w')"

text \<open>
  The URL \<open>show_file_preview\<close> resolves, and the world once it has opened its container
  and built its handler map: the copy of the registry, with the overrides, is the new
  dict at \<open>next_ref w\<close>.
\<close>

definition target_url :: "externals \<Rightarrow> string option \<Rightarrow> string \<Rightarrow> string option" where
  "target_url X artifacts_site target_path =
     (case artifacts_site of
        None \<Rightarrow> None
      | Some site \<Rightarrow> if site \<noteq> [] then Some (urljoin X site target_path) else None)"

definition prepared :: "world \<Rightarrow> (string \<rightharpoonup> handler) option \<Rightarrow> world" where
  "prepared w ov =
     w\<lparr>dicts := (dicts w)(next_ref w := effective_handlers w ov),
       next_ref := Suc (next_ref w),
       trace := trace w @ [st_container]\<rparr>"


section \<open>Concrete inputs\<close>

text \<open>A timestamp parser that knows three instants.\<close>

definition ex_parse :: "string \<Rightarrow> exn + rat" where
  "ex_parse s =
     (if s = ''2024-01-01T00:00:00Z'' then Inr 1704067200
      else if s = ''2024-01-02T00:00:00Z'' then Inr 1704153600
      else if s = ''2024-01-03T00:00:00Z'' then Inr 1704240000
      else Inl (ValueError ''Invalid isoformat string''))"

text \<open>A \<open>LIKE\<close> operator: \<open>%\<close> is any run of characters, \<open>_\<close> any one character.\<close>

definition ex_like :: "string \<Rightarrow> string \<Rightarrow> bool" where
  "ex_like s pat =
     full_match (map (\<lambda>c. if c = CHR ''%'' then TStar else if c = CHR ''_'' then TAny else TLit c) pat) s"

text \<open>Two stored objects of the bucket \<open>bkt\<close>: one in a folder, one at the top level.\<close>

definition ex_row_nested :: "(string \<times> pyval) list" where
  "ex_row_nested =
     [(''name'', PStr ''a/b.csv''), (''bucket_id'', PStr ''bkt''),
      (''created_at'', PStr ''2024-01-01T00:00:00Z''),
      (''updated_at'', PStr ''2024-01-02T00:00:00Z''),
      (''last_accessed_at'', PStr ''2024-01-03T00:00:00Z''),
      (''metadata'', PDict [(''size'', PInt 42)])]"

definition ex_row_top :: "(string \<times> pyval) list" where
  "ex_row_top =
     [(''name'', PStr ''a.txt''), (''bucket_id'', PStr ''bkt''),
      (''created_at'', PStr ''2024-01-01T00:00:00Z''),
      (''updated_at'', PStr ''2024-01-01T00:00:00Z''),
      (''last_accessed_at'', PStr ''2024-01-01T00:00:00Z''),
      (''metadata'', PDict [(''size'', PInt 7)])]"

definition ex_supabase :: provider where
  "ex_supabase =
     \<lparr>storage_url = ''https://x.supabase.co/storage/v1'',
      objects = [ex_row_nested, ex_row_top],
      sql_like = ex_like,
      sql_order = (\<lambda>spec rows. Inr rows),
      failure = None\<rparr>"

definition ex_bucket :: Bucket where
  "ex_bucket = Bucket_init ex_supabase ''bkt'' None None"

definition ex_file_nested :: File where
  "ex_file_nested =
     \<lparr>path = PStr ''a/b.csv'', size_bytes = PInt 42, create_time = 1704067200 / 1000,
      update_time = 1704153600 / 1000, access_time = 1704240000 / 1000\<rparr>"

definition ex_file_top :: File where
  "ex_file_top =
     \<lparr>path = PStr ''a.txt'', size_bytes = PInt 7, create_time = 1704067200 / 1000,
      update_time = 1704067200 / 1000, access_time = 1704067200 / 1000\<rparr>"

text \<open>
  External collaborators for the examples: the storage host cannot be reached, nothing
  is sniffed, the JSON previewer fails to parse and every other handler renders a notice;
  the UI bundle returns the given event.
\<close>

definition ex_externals :: "pyval \<Rightarrow> externals" where
  "ex_externals event =
     \<lparr>parse_timestamp = ex_parse,
      urljoin = (\<lambda>base p. base @ p),
      requests_get = (\<lambda>url. Inl (RequestException ''connection refused'')),
      image_match = (\<lambda>content. Inr None),
      video_match = (\<lambda>content. Inr None),
      audio_match = (\<lambda>content. Inr None),
      handler_run = (\<lambda>h url kwargs.
         if h = do_json_preview then ([], Some (ValueError ''Expecting value''))
         else ([st_info ''rendered''], None)),
      component_func = (\<lambda>args. event)\<rparr>"


text \<open>
  Events of the UI bundle: a selection of a path that is not stored, a selection without
  a target, a selection whose target has no path, and an upload.
\<close>

definition ex_event_stale :: pyval where
  "ex_event_stale =
     PDict [(''type'', PStr ''SELECT_FILE''), (''target'', PDict [(''path'', PStr ''gone.txt'')])]"

definition ex_event_no_target :: pyval where
  "ex_event_no_target = PDict [(''type'', PStr ''SELECT_FILE'')]"

definition ex_event_no_path :: pyval where
  "ex_event_no_path = PDict [(''type'', PStr ''SELECT_FILE''), (''target'', PDict [])]"

definition ex_event_upload :: pyval where
  "ex_event_upload =
     PDict [(''type'', PStr ''UPLOAD_FILE''), (''target'', PDict [(''path'', PStr ''new.txt'')])]"

text \<open>The defaults, with one suffix to ignore.\<close>

definition ex_options_ignoring :: options where
  "ex_options_ignoring = default_options\<lparr>opt_select_filetype_ignores := Some [''.tmp'']\<rparr>"

section \<open>Auxiliary facts\<close>

lemma bnd_simps:
  "bnd (Inl e) f = Inl e"
  "bnd (Inr x) f = f x"
  by (simp_all add: bnd_def)

lemma filter_func_text:
  "path f = PStr s \<Longrightarrow> filter_func P f = Inr (list_ex (fnmatch s) P)"
  by (induction P) auto

lemma filter_func_spec:
  "has_text_path f \<Longrightarrow> filter_func P f = Inr (spec_matches_some_pattern P f)"
  by (auto simp: has_text_path_def spec_matches_some_pattern_def filter_func_text
           split: pyval.splits)

lemma full_match_star: "full_match [TStar] s"
  by (induction s) auto

lemma full_match_star_sep_star:
  "full_match [TStar, TLit CHR ''/'', TStar] s \<longleftrightarrow> CHR ''/'' \<in> set s"
  by (induction s) (auto simp: full_match_star)

lemma translate_defaults:
  "translate ''**/*'' = [TStar, TLit CHR ''/'', TStar]"
  "translate ''*/**'' = [TStar, TLit CHR ''/'', TStar]"
  by (simp_all add: translate_def)

text \<open>
  Both default patterns match exactly the paths that hold a separator: a path at the top
  level of the bucket matches neither.
\<close>

lemma default_patterns_need_separator:
  "fnmatch s ''**/*'' \<longleftrightarrow> CHR ''/'' \<in> set s"
  "fnmatch s ''*/**'' \<longleftrightarrow> CHR ''/'' \<in> set s"
  by (simp_all add: fnmatch_def translate_defaults full_match_star_sep_star)

lemma ex_files_simps:
  "path ex_file_nested = PStr ''a/b.csv''"
  "path ex_file_top = PStr ''a.txt''"
  by (simp_all add: ex_file_nested_def ex_file_top_def)

lemma translate_storage_file_flat:
  assumes "parse created = Inr c" "parse updated = Inr u" "parse accessed = Inr a"
  shows "translate_storage_file parse
           [(''name'', n), (''created_at'', PStr created), (''updated_at'', PStr updated),
            (''last_accessed_at'', PStr accessed), (''size'', sz)]
         = Inr \<lparr>path = n, size_bytes = sz, create_time = c / 1000, update_time = u / 1000,
                access_time = a / 1000\<rparr>"
  using assms
  by (simp add: translate_storage_file_def getitem_def bnd_simps fromisoformat_timestamp_def)

lemma columns_query: "columns (query b) = [''name'', ''created_at'', ''updated_at'', ''last_accessed_at'', ''metadata->size'']"
  by (simp add: query_def Let_def split: option.splits)

lemma dict_comprehension_fold:
  "fold (\<lambda>(k, h) d. d(k \<mapsto> h)) xs m = m ++ map_of (rev xs)"
  by (induction xs arbitrary: m) (auto simp: map_add_def fun_eq_iff split: option.splits)

lemma PREVIEW_HANDLERS_table:
  "PREVIEW_HANDLERS =
     [''.json'' \<mapsto> do_json_preview, ''.pdf'' \<mapsto> do_pdf_preview, ''.csv'' \<mapsto> do_csv_preview,
      ''.tsv'' \<mapsto> do_tsv_preview, ''.log'' \<mapsto> do_plain_preview, ''.txt'' \<mapsto> do_plain_preview,
      ''.upf'' \<mapsto> do_plain_preview, ''.UPF'' \<mapsto> do_plain_preview, ''.orb'' \<mapsto> do_plain_preview,
      ''.md'' \<mapsto> do_markdown_preview, ''.py'' \<mapsto> do_code_preview, ''.sh'' \<mapsto> do_code_preview,
      ''.html'' \<mapsto> do_html_preview, ''.htm'' \<mapsto> do_html_preview, ''.dbn'' \<mapsto> do_dbn_preview]"
  by (rule ext) (simp add: PREVIEW_HANDLERS_def dict_comprehension_def PREVIEW_HANDLERS_pairs_def)

lemma show_file_preview_unfold:
  "show_file_preview X tp site ov kw w =
     (case effective_handlers w ov (splitext_ext tp) of
        Some h \<Rightarrow>
          (case handler_run X h (target_url X site tp) kw of
             (out, None) \<Rightarrow> (emit [handler_call h (target_url X site tp) kw out] (prepared w ov), None)
           | (out, Some e) \<Rightarrow>
               (emit [handler_call h (target_url X site tp) kw out,
                      st_error (''failed preview '' @ tp), st_exception e] (prepared w ov), None))
      | None \<Rightarrow>
          (case requests_get X (target_url X site tp) of
             Inl e \<Rightarrow> (emit [requests_get_content (target_url X site tp)] (prepared w ov), Some e)
           | Inr content \<Rightarrow>
               (case image_match X content of
                  Inl e \<Rightarrow> (emit [requests_get_content (target_url X site tp)] (prepared w ov), Some e)
                | Inr (Some ft) \<Rightarrow>
                    (emit [st_image content]
                       (emit [requests_get_content (target_url X site tp)] (prepared w ov)), None)
                | Inr None \<Rightarrow>
                    (case video_match X content of
                       Inl e \<Rightarrow> (emit [requests_get_content (target_url X site tp)] (prepared w ov), Some e)
                     | Inr (Some mime) \<Rightarrow>
                         (emit [st_video (target_url X site tp) mime]
                            (emit [requests_get_content (target_url X site tp)] (prepared w ov)), None)
                     | Inr None \<Rightarrow>
                         (case audio_match X content of
                            Inl e \<Rightarrow> (emit [requests_get_content (target_url X site tp)] (prepared w ov), Some e)
                          | Inr (Some mime) \<Rightarrow>
                              (emit [st_audio content mime]
                                 (emit [requests_get_content (target_url X site tp)] (prepared w ov)), None)
                          | Inr None \<Rightarrow>
                              (emit [st_info (''No preview available for '' @ splitext_ext tp)]
                                 (emit [requests_get_content (target_url X site tp)] (prepared w ov)),
                               None))))))"
proof -
  have w3: "dict_update (next_ref w) (case ov of None \<Rightarrow> Map.empty | Some m \<Rightarrow> m)
              (snd (copy_copy PREVIEW_HANDLERS_ref (emit [st_container] w))) = prepared w ov"
    by (simp add: dict_update_def copy_copy_def emit_def prepared_def effective_handlers_def)
  have h: "fst (copy_copy PREVIEW_HANDLERS_ref (emit [st_container] w)) = next_ref w"
    by (simp add: copy_copy_def emit_def)
  have d: "dicts (prepared w ov) (next_ref w) = effective_handlers w ov"
    by (simp add: prepared_def)
  show ?thesis
    unfolding show_file_preview_def Let_def case_prod_beta h w3 d target_url_def [symmetric]
    by (rule refl)
qed

lemma emit_emit: "emit a (emit b w) = emit (b @ a) w"
  by (simp add: emit_def)

lemma emit_prepared_fields:
  "dicts (emit es (prepared w ov)) = (dicts w)(next_ref w := effective_handlers w ov)"
  "next_ref (emit es (prepared w ov)) = Suc (next_ref w)"
  "trace (emit es (prepared w ov)) = trace w @ st_container # es"
  by (simp_all add: emit_def prepared_def)

lemma show_file_preview_store:
  "dicts (fst (show_file_preview X tp site ov kw w))
     = (dicts w)(next_ref w := effective_handlers w ov)"
  "next_ref (fst (show_file_preview X tp site ov kw w)) = Suc (next_ref w)"
  by (simp_all add: show_file_preview_unfold emit_prepared_fields emit_emit
               split: option.splits sum.splits prod.splits)




lemma splitext_examples:
  "splitext_ext ''photo.png'' = ''.png''"
  "splitext_ext ''sample.xyz'' = ''.xyz''"
  "splitext_ext ''notes.md'' = ''.md''"
  by (simp_all add: splitext_ext_def)

lemma loaded_world_fields:
  "dicts loaded_world PREVIEW_HANDLERS_ref = PREVIEW_HANDLERS"
  "next_ref loaded_world = Suc PREVIEW_HANDLERS_ref"
  "trace loaded_world = []"
  by (simp_all add: loaded_world_def)

lemma ex_externals_fields:
  "urljoin (ex_externals ev) = (\<lambda>base p. base @ p)"
  "requests_get (ex_externals ev) = (\<lambda>url. Inl (RequestException ''connection refused''))"
  "handler_run (ex_externals ev) = (\<lambda>h url kwargs.
         if h = do_json_preview then ([], Some (ValueError ''Expecting value''))
         else ([st_info ''rendered''], None))"
  "component_func (ex_externals ev) = (\<lambda>args. ev)"
  "parse_timestamp (ex_externals ev) = ex_parse"
  by (simp_all add: ex_externals_def)

lemma any_endswith_text:
  "map_of d ''target'' = Some (PDict file) \<Longrightarrow> map_of file ''path'' = Some (PStr fp) \<Longrightarrow>
   any_endswith d fts = Inr (list_ex (endswith fp) fts)"
  by (induction fts) (simp_all add: getitem_def subscript_def value_endswith_def bnd_simps)

lemma any_endswith_no_target:
  "map_of d ''target'' = None \<Longrightarrow>
   any_endswith d fts = (if fts = [] then Inr False else Inl (KeyError ''target''))"
  by (cases fts) (simp_all add: getitem_def bnd_simps)

lemma any_endswith_no_path:
  "map_of d ''target'' = Some (PDict file) \<Longrightarrow> map_of file ''path'' = None \<Longrightarrow>
   any_endswith d fts = (if fts = [] then Inr False else Inl (KeyError ''path''))"
  by (cases fts) (simp_all add: getitem_def subscript_def bnd_simps)

lemma emit_nil: "emit [] w = w"
  by (simp add: emit_def)

lemma select_file_stale:
  assumes "map_of event ''target'' = Some (PDict file)"
    and "map_of file ''path'' = Some (PStr fp)"
    and "Bucket_exists bucket fp = Inr False"
  shows "select_file X opts bucket (PDict event) w
         = (emit [st_warning (''File '' @ fp @ '' not found'')] w, Inr (PDict event))"
  using assms
  by (simp add: select_file_def subscript_def getitem_def path_text_def bnd_simps)

lemma select_file_no_target:
  "map_of event ''target'' = None \<Longrightarrow>
   select_file X opts bucket (PDict event) w = (w, Inl (KeyError ''target''))"
  by (simp add: select_file_def subscript_def getitem_def bnd_simps)

lemma select_file_no_path:
  "map_of event ''target'' = Some (PDict file) \<Longrightarrow> map_of file ''path'' = None \<Longrightarrow>
   select_file X opts bucket (PDict event) w = (w, Inl (KeyError ''path''))"
  by (simp add: select_file_def subscript_def getitem_def bnd_simps)

text \<open>The orchestrator once the listing has succeeded and the UI bundle has answered.\<close>

lemma browser_after_listing:
  assumes "Bucket_list (parse_timestamp X) (Bucket_init supabase bid p (opt_extentions opts))
             (opt_glob_patterns opts) (opt_limit opts) (opt_offset opts) (opt_sort opts) = Inr files"
    and "component_func X
           (component_arguments opts (Bucket_init supabase bid p (opt_extentions opts)) files) = event"
  shows "st_supabase_storage_browser X supabase bid p opts w =
           (case select_condition event (opt_select_filetype_ignores opts) of
              Inl e \<Rightarrow>
                (emit (if opt_show_preview opts \<and> opt_show_preview_top opts then [st_container] else []) w,
                 Inl e)
            | Inr True \<Rightarrow>
                select_file X opts (Bucket_init supabase bid p (opt_extentions opts)) event
                  (emit (if opt_show_preview opts \<and> opt_show_preview_top opts then [st_container] else []) w)
            | Inr False \<Rightarrow>
                (emit (if opt_show_preview opts \<and> opt_show_preview_top opts then [st_container] else []) w,
                 Inr event))"
  by (cases "opt_show_preview opts"; cases "opt_show_preview_top opts")
     (simp_all add: st_supabase_storage_browser_def Let_def assms emit_nil
               split: sum.splits bool.splits)

lemma default_options_fields:
  "opt_show_preview default_options = True"
  "opt_show_preview_top default_options = False"
  "opt_glob_patterns default_options = browser_default_glob_patterns"
  "opt_select_filetype_ignores default_options = None"
  "opt_extentions default_options = None"
  "opt_limit default_options = None"
  "opt_offset default_options = None"
  "opt_sort default_options = None"
  by (simp_all add: default_options_def)

lemma ex_options_ignoring_fields:
  "opt_show_preview ex_options_ignoring = True"
  "opt_show_preview_top ex_options_ignoring = False"
  "opt_glob_patterns ex_options_ignoring = browser_default_glob_patterns"
  "opt_select_filetype_ignores ex_options_ignoring = Some [''.tmp'']"
  "opt_extentions ex_options_ignoring = None"
  "opt_limit ex_options_ignoring = None"
  "opt_offset ex_options_ignoring = None"
  "opt_sort ex_options_ignoring = None"
  by (simp_all add: ex_options_ignoring_def default_options_def)

text \<open>The listing of the example bucket under patterns that keep only \<open>a/b.csv\<close>.\<close>

lemma ex_bucket_listing:
  assumes k: "filter_func P ex_file_nested = Inr True"
    and a: "filter_func P ex_file_top = Inr False"
  shows "Bucket_list ex_parse ex_bucket P None None None = Inr [ex_file_nested]"
proof -
  have rows: "execute ex_supabase (query ex_bucket)
              = Inr [map (select_column ex_row_nested) (columns (query ex_bucket)),
                     map (select_column ex_row_top) (columns (query ex_bucket))]"
    by (simp add: execute_def ex_supabase_def ex_bucket_def Bucket_init_def query_def
                  matching_rows_def paginate_def bnd_simps column_value_def
                  ex_row_nested_def ex_row_top_def)
  have t1: "translate_storage_file ex_parse
              (map (select_column ex_row_nested) (columns (query ex_bucket))) = Inr ex_file_nested"
    by (simp add: translate_storage_file_def query_def ex_bucket_def Bucket_init_def
                  select_column_def column_value_def ex_row_nested_def getitem_def bnd_simps
                  fromisoformat_timestamp_def ex_parse_def ex_file_nested_def)
  have t2: "translate_storage_file ex_parse
              (map (select_column ex_row_top) (columns (query ex_bucket))) = Inr ex_file_top"
    by (simp add: translate_storage_file_def query_def ex_bucket_def Bucket_init_def
                  select_column_def column_value_def ex_row_top_def getitem_def bnd_simps
                  fromisoformat_timestamp_def ex_parse_def ex_file_top_def)
  have sup: "bucket_supabase ex_bucket = ex_supabase"
    by (simp add: ex_bucket_def Bucket_init_def)
  show ?thesis
    by (simp add: Bucket_list_def sup rows bnd_simps t1 t2 a k)
qed

lemma ex_default_filter:
  "filter_func browser_default_glob_patterns ex_file_top = Inr False"
  "filter_func list_default_glob_patterns ex_file_top = Inr False"
  "filter_func browser_default_glob_patterns ex_file_nested = Inr True"
  by (simp_all add: browser_default_glob_patterns_def list_default_glob_patterns_def
                    filter_func_text [OF ex_files_simps(2)] filter_func_text [OF ex_files_simps(1)]
                    default_patterns_need_separator)

lemma ex_bucket_default_listing:
  "Bucket_list ex_parse ex_bucket browser_default_glob_patterns None None None
     = Inr [ex_file_nested]"
  by (rule ex_bucket_listing [OF ex_default_filter(3) ex_default_filter(1)])

lemma ex_listing_for_browser:
  "Bucket_list (parse_timestamp (ex_externals ev))
     (Bucket_init ex_supabase ''bkt'' None (opt_extentions opts))
     (opt_glob_patterns opts) (opt_limit opts) (opt_offset opts) (opt_sort opts) = Inr [ex_file_nested]"
  if "opt_extentions opts = None" "opt_glob_patterns opts = browser_default_glob_patterns"
     "opt_limit opts = None" "opt_offset opts = None" "opt_sort opts = None"
  using ex_bucket_default_listing that
  by (simp add: ex_externals_fields ex_bucket_def)

lemma ex_component:
  "component_func (ex_externals ev) args = ev"
  by (simp add: ex_externals_fields)

lemma ex_exists_gone:
  "Bucket_exists (Bucket_init ex_supabase ''bkt'' None None) ''gone.txt'' = Inr False"
  by (simp add: Bucket_exists_def maybe_single_execute_def execute_def ex_supabase_def
                Bucket_init_def query_def matching_rows_def paginate_def bnd_simps column_value_def
                ex_row_nested_def ex_row_top_def)












section \<open>Bucket: claim C2\<close>




section \<open>The Glob Filter: claims C3 and C4\<close>

text \<open>
  Claim C3. For every sequence of File records \<open>F\<close> (records whose path is text) and
  every sequence of glob patterns \<open>P\<close>, the glob-filter stage of \<open>Bucket.list\<close> raises
  nothing and returns exactly the records of \<open>F\<close> whose path matches at least one
  pattern of \<open>P\<close>, in the order they have in \<open>F\<close>.
\<close>

theorem glob_filter_exact:
  assumes "list_all has_text_path F"
  shows "glob_filter P F = Inr (filter (spec_matches_some_pattern P) F)"
  unfolding glob_filter_def using assms
  by (induction F) (simp_all add: filter_func_spec)

theorem glob_filter_exact_witness:
  "list_all has_text_path [ex_file_nested, ex_file_top] \<and>
   glob_filter [''*.csv'', ''*.json''] [ex_file_nested, ex_file_top] = Inr [ex_file_nested]"
proof -
  have typed: "list_all has_text_path [ex_file_nested, ex_file_top]"
    by (simp add: has_text_path_def ex_files_simps)
  have "filter (spec_matches_some_pattern [''*.csv'', ''*.json'']) [ex_file_nested, ex_file_top]
        = [ex_file_nested]"
    by (simp add: spec_matches_some_pattern_def ex_files_simps fnmatch_def translate_def)
  with glob_filter_exact [OF typed, of "[''*.csv'', ''*.json'']"] typed show ?thesis
    by simp
qed

text \<open>
  Claim C4. The default patterns are \<open>*/**\<close> (\<open>Bucket.list\<close>) and \<open>**/*\<close> (the
  widget); under \<open>fnmatch\<close> both require a separator in the path. The record of the
  top-level object \<open>a.txt\<close> does not pass either default filter, and the default
  listing of a bucket that holds \<open>a/b.csv\<close> and \<open>a.txt\<close> returns only the former.
\<close>

theorem default_patterns_drop_top_level:
  "filter_func browser_default_glob_patterns ex_file_top = Inr False \<and>
   filter_func list_default_glob_patterns ex_file_top = Inr False \<and>
   Bucket_list ex_parse ex_bucket browser_default_glob_patterns None None None
     = Inr [ex_file_nested]"
  by (simp add: ex_default_filter ex_bucket_default_listing)

section \<open>The Record Translator: claim C5\<close>

text \<open>
  Claim C5 as stated, refuted: given the row as it is stored (\<open>size\<close> nested under
  \<open>metadata\<close>, no key \<open>size\<close> of its own), \<open>translate_storage_file\<close> raises
  \<open>KeyError('size')\<close>.
\<close>

theorem translate_stored_row_counterexample:
  "translate_storage_file ex_parse ex_row_nested = Inl (KeyError ''size'')"
  by (simp add: translate_storage_file_def ex_row_nested_def getitem_def bnd_simps)

text \<open>
  Claim C5, amended. The translator is given the row as the query of \<open>Bucket._query\<close>
  returns it, where the selected column \<open>metadata->size\<close> arrives under the key
  \<open>size\<close>. For the stored row of the scenario, whatever its three timestamps, if the
  parser returns the epoch values \<open>c\<close>, \<open>u\<close>, \<open>a\<close> for them, the record has the path
  \<open>a/b.csv\<close>, the size 42, and each time equal to the parsed value divided by 1000.
\<close>

theorem translate_projected_row:
  assumes "parse created = Inr c" "parse updated = Inr u" "parse accessed = Inr a"
  shows "translate_storage_file parse
           (map (select_column
                   [(''name'', PStr ''a/b.csv''), (''bucket_id'', PStr ''bkt''),
                    (''created_at'', PStr created), (''updated_at'', PStr updated),
                    (''last_accessed_at'', PStr accessed),
                    (''metadata'', PDict [(''size'', PInt 42)])])
                (columns (query b)))
         = Inr \<lparr>path = PStr ''a/b.csv'', size_bytes = PInt 42, create_time = c / 1000,
                update_time = u / 1000, access_time = a / 1000\<rparr>"
proof -
  have "map (select_column
                   [(''name'', PStr ''a/b.csv''), (''bucket_id'', PStr ''bkt''),
                    (''created_at'', PStr created), (''updated_at'', PStr updated),
                    (''last_accessed_at'', PStr accessed),
                    (''metadata'', PDict [(''size'', PInt 42)])])
                (columns (query b))
        = [(''name'', PStr ''a/b.csv''), (''created_at'', PStr created), (''updated_at'', PStr updated),
            (''last_accessed_at'', PStr accessed), (''size'', PInt 42)]"
    by (simp add: columns_query select_column_def column_value_def)
  then show ?thesis
    by (simp add: translate_storage_file_flat [OF assms])
qed

theorem translate_projected_row_witness:
  "ex_parse ''2024-01-01T00:00:00Z'' = Inr 1704067200 \<and>
   ex_parse ''2024-01-02T00:00:00Z'' = Inr 1704153600 \<and>
   ex_parse ''2024-01-03T00:00:00Z'' = Inr 1704240000 \<and>
   translate_storage_file ex_parse (map (select_column ex_row_nested) (columns (query ex_bucket)))
     = Inr \<lparr>path = PStr ''a/b.csv'', size_bytes = PInt 42, create_time = 1704067200 / 1000,
            update_time = 1704153600 / 1000, access_time = 1704240000 / 1000\<rparr>"
proof -
  have c: "ex_parse ''2024-01-01T00:00:00Z'' = Inr 1704067200"
    and u: "ex_parse ''2024-01-02T00:00:00Z'' = Inr 1704153600"
    and a: "ex_parse ''2024-01-03T00:00:00Z'' = Inr 1704240000"
    by (simp_all add: ex_parse_def)
  from translate_projected_row
         [where parse = ex_parse and created = "''2024-01-01T00:00:00Z''"
            and updated = "''2024-01-02T00:00:00Z''" and accessed = "''2024-01-03T00:00:00Z''"
            and b = ex_bucket, OF c u a] c u a
  show ?thesis
    by (simp add: ex_row_nested_def)
qed

section \<open>The registry: claim C8\<close>

text \<open>
  Claim C8. The flattened registry is a map, so every extension has one handler; it is
  the table below. The key \<open>.md\<close>, listed first with the plain-text handler and then
  with the markdown handler, is bound to the markdown handler, and not to the plain-text
  one.
\<close>

theorem registry_last_writer_wins:
  "PREVIEW_HANDLERS ''.md'' = Some do_markdown_preview \<and>
   PREVIEW_HANDLERS ''.md'' \<noteq> Some do_plain_preview \<and>
   PREVIEW_HANDLERS =
     [''.json'' \<mapsto> do_json_preview, ''.pdf'' \<mapsto> do_pdf_preview, ''.csv'' \<mapsto> do_csv_preview,
      ''.tsv'' \<mapsto> do_tsv_preview, ''.log'' \<mapsto> do_plain_preview, ''.txt'' \<mapsto> do_plain_preview,
      ''.upf'' \<mapsto> do_plain_preview, ''.UPF'' \<mapsto> do_plain_preview, ''.orb'' \<mapsto> do_plain_preview,
      ''.md'' \<mapsto> do_markdown_preview, ''.py'' \<mapsto> do_code_preview, ''.sh'' \<mapsto> do_code_preview,
      ''.html'' \<mapsto> do_html_preview, ''.htm'' \<mapsto> do_html_preview, ''.dbn'' \<mapsto> do_dbn_preview]"
proof -
  have md: "PREVIEW_HANDLERS ''.md'' = Some do_markdown_preview"
    by (simp add: PREVIEW_HANDLERS_table)
  from md PREVIEW_HANDLERS_table show ?thesis by simp
qed

section \<open>The Preview Dispatcher: claims C1, C6 and C7\<close>

text \<open>
  Claim C1, at the input where the code departs from it. The path \<open>photo.png\<close> has no
  handler, so the dispatcher takes the fallback path and fetches the bytes; the fetch
  raises (the host refuses the connection). The exception leaves \<open>show_file_preview\<close>:
  nothing catches it, and no error indicator is rendered (the trace holds the container
  and the fetch only).
\<close>

theorem fallback_fetch_failure_propagates:
  "snd (show_file_preview (ex_externals PNone) ''photo.png'' (Some (public_url ex_bucket)) None []
          loaded_world)
     = Some (RequestException ''connection refused'') \<and>
   emitted loaded_world
     (fst (show_file_preview (ex_externals PNone) ''photo.png'' (Some (public_url ex_bucket)) None []
             loaded_world))
     = [st_container,
        requests_get_content (Some ''https://x.supabase.co/storage/v1/object/public/bkt/photo.png'')]"
proof -
  have none: "effective_handlers loaded_world None (splitext_ext ''photo.png'') = None"
    by (simp add: effective_handlers_def loaded_world_fields splitext_examples PREVIEW_HANDLERS_table)
  have url: "target_url (ex_externals PNone) (Some (public_url ex_bucket)) ''photo.png''
             = Some ''https://x.supabase.co/storage/v1/object/public/bkt/photo.png''"
    by (simp add: target_url_def public_url_def ex_bucket_def Bucket_init_def ex_supabase_def
                  ex_externals_fields)
  show ?thesis
    by (simp add: show_file_preview_unfold none url ex_externals_fields emitted_def
                  emit_prepared_fields loaded_world_fields)
qed



text \<open>
  Claim C7. In a store where the registry was allocated before the call, a call of
  \<open>show_file_preview\<close>, with or without overrides, leaves the dict of the global
  registry as it was; the map it dispatches on is a new dict that holds the registry's
  bindings with the overrides on top; no other dict changes.
\<close>

theorem registry_untouched_by_dispatch:
  assumes "PREVIEW_HANDLERS_ref < next_ref w"
  shows "dicts (fst (show_file_preview X tp site ov kw w)) PREVIEW_HANDLERS_ref
           = dicts w PREVIEW_HANDLERS_ref \<and>
         dicts (fst (show_file_preview X tp site ov kw w)) (next_ref w)
           = effective_handlers w ov \<and>
         dicts (fst (show_file_preview X tp site ov kw w))
           = (dicts w)(next_ref w := effective_handlers w ov)"
  using assms by (simp add: show_file_preview_store)

theorem registry_untouched_by_dispatch_witness:
  "PREVIEW_HANDLERS_ref < next_ref loaded_world \<and>
   dicts (fst (show_file_preview (ex_externals PNone) ''notes.md'' (Some ''https://x/'')
                 (Some [''.md'' \<mapsto> caller_handler 1]) [] loaded_world)) PREVIEW_HANDLERS_ref ''.md''
     = Some do_markdown_preview \<and>
   dicts (fst (show_file_preview (ex_externals PNone) ''notes.md'' (Some ''https://x/'')
                 (Some [''.md'' \<mapsto> caller_handler 1]) [] loaded_world)) (next_ref loaded_world) ''.md''
     = Some (caller_handler 1)"
proof -
  have fresh: "PREVIEW_HANDLERS_ref < next_ref loaded_world"
    by (simp add: loaded_world_fields)
  have eff: "effective_handlers loaded_world (Some [''.md'' \<mapsto> caller_handler 1]) ''.md''
             = Some (caller_handler 1)"
    by (simp add: effective_handlers_def)
  have md: "PREVIEW_HANDLERS ''.md'' = Some do_markdown_preview"
    by (simp add: PREVIEW_HANDLERS_table)
  from registry_untouched_by_dispatch [OF fresh, of "ex_externals PNone" "''notes.md''"
         "Some ''https://x/''" "Some [''.md'' \<mapsto> caller_handler 1]" "[]"]
       fresh eff md
  show ?thesis by (simp add: loaded_world_fields)
qed

section \<open>The Widget Orchestrator: claims C9 and C10\<close>

text \<open>
  Claim C9. Once the listing has succeeded and the UI bundle has returned a
  \<open>SELECT_FILE\<close> event whose target path is text and ends with none of the ignored
  suffixes, if \<open>Bucket.exists\<close> returns false then the orchestrator emits the warning
  (after the container of a top preview, if one was asked for), dispatches no preview
  (the store is untouched and nothing else is rendered) and returns the event as the UI
  bundle produced it.
\<close>

theorem stale_selection_warns_and_returns_event:
  assumes "Bucket_list (parse_timestamp X) (Bucket_init supabase bid p (opt_extentions opts))
             (opt_glob_patterns opts) (opt_limit opts) (opt_offset opts) (opt_sort opts) = Inr files"
    and "component_func X
           (component_arguments opts (Bucket_init supabase bid p (opt_extentions opts)) files)
         = PDict event"
    and "map_of event ''type'' = Some (PStr ''SELECT_FILE'')"
    and "map_of event ''target'' = Some (PDict file)"
    and "map_of file ''path'' = Some (PStr fp)"
    and "\<not> list_ex (endswith fp)
             (case opt_select_filetype_ignores opts of None \<Rightarrow> [] | Some fts \<Rightarrow> fts)"
    and "Bucket_exists (Bucket_init supabase bid p (opt_extentions opts)) fp = Inr False"
  shows "st_supabase_storage_browser X supabase bid p opts w =
           (emit ((if opt_show_preview opts \<and> opt_show_preview_top opts then [st_container] else []) @
                  [st_warning (''File '' @ fp @ '' not found'')]) w,
            Inr (PDict event))"
proof -
  have c: "select_condition (PDict event) (opt_select_filetype_ignores opts) = Inr True"
    using assms(3,6)
    by (simp add: select_condition_def any_endswith_text [OF assms(4,5)] bnd_simps)
  show ?thesis
    by (simp add: browser_after_listing [OF assms(1,2)] c
                  select_file_stale [OF assms(4,5,7)] emit_emit)
qed

theorem stale_selection_warns_and_returns_event_witness:
  "Bucket_exists (Bucket_init ex_supabase ''bkt'' None None) ''gone.txt'' = Inr False \<and>
   st_supabase_storage_browser (ex_externals ex_event_stale) ex_supabase ''bkt'' None
     default_options loaded_world
     = (emit [st_warning ''File gone.txt not found''] loaded_world, Inr ex_event_stale)"
proof -
  have l: "Bucket_list (parse_timestamp (ex_externals ex_event_stale))
     (Bucket_init ex_supabase ''bkt'' None (opt_extentions default_options))
     (opt_glob_patterns default_options) (opt_limit default_options) (opt_offset default_options)
     (opt_sort default_options) = Inr [ex_file_nested]"
    by (rule ex_listing_for_browser) (simp_all add: default_options_fields)
  have c: "component_func (ex_externals ex_event_stale)
             (component_arguments default_options
                (Bucket_init ex_supabase ''bkt'' None (opt_extentions default_options))
                [ex_file_nested])
           = PDict [(''type'', PStr ''SELECT_FILE''), (''target'', PDict [(''path'', PStr ''gone.txt'')])]"
    by (simp add: ex_component ex_event_stale_def)
  have ty: "map_of [(''type'', PStr ''SELECT_FILE''), (''target'', PDict [(''path'', PStr ''gone.txt'')])]
              ''type'' = Some (PStr ''SELECT_FILE'')"
    by simp
  have tg: "map_of [(''type'', PStr ''SELECT_FILE''), (''target'', PDict [(''path'', PStr ''gone.txt'')])]
              ''target'' = Some (PDict [(''path'', PStr ''gone.txt'')])"
    by simp
  have pa: "map_of [(''path'', PStr ''gone.txt'')] ''path'' = Some (PStr ''gone.txt'')"
    by simp
  have ig: "\<not> list_ex (endswith ''gone.txt'')
               (case opt_select_filetype_ignores default_options of None \<Rightarrow> [] | Some fts \<Rightarrow> fts)"
    by (simp add: default_options_fields)
  have ex: "Bucket_exists (Bucket_init ex_supabase ''bkt'' None (opt_extentions default_options))
              ''gone.txt'' = Inr False"
    by (simp add: default_options_fields ex_exists_gone)
  from stale_selection_warns_and_returns_event [OF l c ty tg pa ig ex, of loaded_world]
  have "st_supabase_storage_browser (ex_externals ex_event_stale) ex_supabase ''bkt'' None
     default_options loaded_world
     = (emit [st_warning ''File gone.txt not found''] loaded_world, Inr ex_event_stale)"
    by (simp add: default_options_fields ex_event_stale_def)
  with ex_exists_gone show ?thesis by simp
qed

text \<open>
  Claim C10 as stated, refuted. With the default options (no suffixes to ignore) and a
  \<open>SELECT_FILE\<close> event without a target, the ignore filter is evaluated without an
  exception and the condition holds; the \<open>KeyError\<close> is raised after it, when the body
  reads \<open>event["target"]\<close>.
\<close>

theorem key_error_after_ignore_filter_counterexample:
  "select_condition ex_event_no_target (opt_select_filetype_ignores default_options) = Inr True \<and>
   snd (st_supabase_storage_browser (ex_externals ex_event_no_target) ex_supabase ''bkt'' None
          default_options loaded_world) = Inl (KeyError ''target'')"
proof -
  have l: "Bucket_list (parse_timestamp (ex_externals ex_event_no_target))
     (Bucket_init ex_supabase ''bkt'' None (opt_extentions default_options))
     (opt_glob_patterns default_options) (opt_limit default_options) (opt_offset default_options)
     (opt_sort default_options) = Inr [ex_file_nested]"
    by (rule ex_listing_for_browser) (simp_all add: default_options_fields)
  have c: "select_condition ex_event_no_target (opt_select_filetype_ignores default_options) = Inr True"
    by (simp add: select_condition_def ex_event_no_target_def default_options_fields bnd_simps)
  have s: "select_file (ex_externals ex_event_no_target) default_options
             (Bucket_init ex_supabase ''bkt'' None (opt_extentions default_options))
             ex_event_no_target w = (w, Inl (KeyError ''target''))" for w
    unfolding ex_event_no_target_def by (rule select_file_no_target) simp
  have "snd (st_supabase_storage_browser (ex_externals ex_event_no_target) ex_supabase ''bkt'' None
          default_options loaded_world) = Inl (KeyError ''target'')"
    unfolding browser_after_listing [OF l ex_component] c by (simp add: s)
  with c show ?thesis by simp
qed


text \<open>
  Claim C10, amended. Once the listing has succeeded, a dict event of type
  \<open>SELECT_FILE\<close> without a target makes the orchestrator raise \<open>KeyError('target')\<close>,
  and one whose target is a dict without a path \<open>KeyError('path')\<close>, instead of
  returning the event. The exception is raised while the ignore filter is evaluated when
  there are suffixes to ignore; with none (the default) the filter passes and the
  exception is raised by the first read of the body. An event that is not a dict, or
  whose type is not \<open>SELECT_FILE\<close>, is returned as it is.
\<close>

theorem malformed_select_event_raises:
  assumes "Bucket_list (parse_timestamp X) (Bucket_init supabase bid p (opt_extentions opts))
             (opt_glob_patterns opts) (opt_limit opts) (opt_offset opts) (opt_sort opts) = Inr files"
    and "component_func X
           (component_arguments opts (Bucket_init supabase bid p (opt_extentions opts)) files)
         = event"
  shows
   "(\<forall>d. event = PDict d \<and> map_of d ''type'' = Some (PStr ''SELECT_FILE'') \<and>
         map_of d ''target'' = None \<longrightarrow>
       snd (st_supabase_storage_browser X supabase bid p opts w) = Inl (KeyError ''target'') \<and>
       select_condition event (opt_select_filetype_ignores opts)
         = (if (case opt_select_filetype_ignores opts of None \<Rightarrow> [] | Some fts \<Rightarrow> fts) = []
            then Inr True else Inl (KeyError ''target''))) \<and>
    (\<forall>d file. event = PDict d \<and> map_of d ''type'' = Some (PStr ''SELECT_FILE'') \<and>
         map_of d ''target'' = Some (PDict file) \<and> map_of file ''path'' = None \<longrightarrow>
       snd (st_supabase_storage_browser X supabase bid p opts w) = Inl (KeyError ''path'') \<and>
       select_condition event (opt_select_filetype_ignores opts)
         = (if (case opt_select_filetype_ignores opts of None \<Rightarrow> [] | Some fts \<Rightarrow> fts) = []
            then Inr True else Inl (KeyError ''path''))) \<and>
    ((\<forall>d. event = PDict d \<longrightarrow> map_of d ''type'' \<noteq> Some (PStr ''SELECT_FILE'')) \<longrightarrow>
       st_supabase_storage_browser X supabase bid p opts w
         = (emit (if opt_show_preview opts \<and> opt_show_preview_top opts then [st_container] else []) w,
            Inr event))"
proof (intro conjI allI impI)
  fix d
  assume h: "event = PDict d \<and> map_of d ''type'' = Some (PStr ''SELECT_FILE'') \<and>
             map_of d ''target'' = None"
  then have ev: "event = PDict d" and ty: "map_of d ''type'' = Some (PStr ''SELECT_FILE'')"
    and tg: "map_of d ''target'' = None"
    by simp_all
  show c: "select_condition event (opt_select_filetype_ignores opts)
         = (if (case opt_select_filetype_ignores opts of None \<Rightarrow> [] | Some fts \<Rightarrow> fts) = []
            then Inr True else Inl (KeyError ''target''))"
    by (simp add: ev select_condition_def ty any_endswith_no_target [OF tg] bnd_simps)
  show "snd (st_supabase_storage_browser X supabase bid p opts w) = Inl (KeyError ''target'')"
    unfolding browser_after_listing [OF assms] c
    by (simp add: ev select_file_no_target [OF tg])
next
  fix d tgt
  assume h: "event = PDict d \<and> map_of d ''type'' = Some (PStr ''SELECT_FILE'') \<and>
             map_of d ''target'' = Some (PDict tgt) \<and> map_of tgt ''path'' = None"
  then have ev: "event = PDict d" and ty: "map_of d ''type'' = Some (PStr ''SELECT_FILE'')"
    and tg: "map_of d ''target'' = Some (PDict tgt)" and pa: "map_of tgt ''path'' = None"
    by simp_all
  show c: "select_condition event (opt_select_filetype_ignores opts)
         = (if (case opt_select_filetype_ignores opts of None \<Rightarrow> [] | Some fts \<Rightarrow> fts) = []
            then Inr True else Inl (KeyError ''path''))"
    by (simp add: ev select_condition_def ty any_endswith_no_path [OF tg pa] bnd_simps)
  show "snd (st_supabase_storage_browser X supabase bid p opts w) = Inl (KeyError ''path'')"
    unfolding browser_after_listing [OF assms] c
    by (simp add: ev select_file_no_path [OF tg pa])
next
  assume h: "\<forall>d. event = PDict d \<longrightarrow> map_of d ''type'' \<noteq> Some (PStr ''SELECT_FILE'')"
  then have c: "select_condition event (opt_select_filetype_ignores opts) = Inr False"
    by (cases event) (simp_all add: select_condition_def)
  show "st_supabase_storage_browser X supabase bid p opts w
         = (emit (if opt_show_preview opts \<and> opt_show_preview_top opts then [st_container] else []) w,
            Inr event)"
    unfolding browser_after_listing [OF assms] c by simp
qed

theorem malformed_select_event_raises_witness:
  "snd (st_supabase_storage_browser (ex_externals ex_event_no_target) ex_supabase ''bkt'' None
          default_options loaded_world) = Inl (KeyError ''target'') \<and>
   select_condition ex_event_no_target (opt_select_filetype_ignores default_options) = Inr True \<and>
   snd (st_supabase_storage_browser (ex_externals ex_event_no_path) ex_supabase ''bkt'' None
          ex_options_ignoring loaded_world) = Inl (KeyError ''path'') \<and>
   select_condition ex_event_no_path (opt_select_filetype_ignores ex_options_ignoring)
     = Inl (KeyError ''path'') \<and>
   st_supabase_storage_browser (ex_externals ex_event_upload) ex_supabase ''bkt'' None
     default_options loaded_world = (loaded_world, Inr ex_event_upload)"
proof -
  have l1: "Bucket_list (parse_timestamp (ex_externals ex_event_no_target))
     (Bucket_init ex_supabase ''bkt'' None (opt_extentions default_options))
     (opt_glob_patterns default_options) (opt_limit default_options) (opt_offset default_options)
     (opt_sort default_options) = Inr [ex_file_nested]"
    by (rule ex_listing_for_browser) (simp_all add: default_options_fields)
  have l2: "Bucket_list (parse_timestamp (ex_externals ex_event_no_path))
     (Bucket_init ex_supabase ''bkt'' None (opt_extentions ex_options_ignoring))
     (opt_glob_patterns ex_options_ignoring) (opt_limit ex_options_ignoring)
     (opt_offset ex_options_ignoring) (opt_sort ex_options_ignoring) = Inr [ex_file_nested]"
    by (rule ex_listing_for_browser) (simp_all add: ex_options_ignoring_fields)
  have l3: "Bucket_list (parse_timestamp (ex_externals ex_event_upload))
     (Bucket_init ex_supabase ''bkt'' None (opt_extentions default_options))
     (opt_glob_patterns default_options) (opt_limit default_options) (opt_offset default_options)
     (opt_sort default_options) = Inr [ex_file_nested]"
    by (rule ex_listing_for_browser) (simp_all add: default_options_fields)
  have h1: "ex_event_no_target = PDict [(''type'', PStr ''SELECT_FILE'')] \<and>
            map_of [(''type'', PStr ''SELECT_FILE'')] ''type'' = Some (PStr ''SELECT_FILE'') \<and>
            map_of [(''type'', PStr ''SELECT_FILE'')] ''target'' = None"
    by (simp add: ex_event_no_target_def)
  have h2: "ex_event_no_path = PDict [(''type'', PStr ''SELECT_FILE''), (''target'', PDict [])] \<and>
            map_of [(''type'', PStr ''SELECT_FILE''), (''target'', PDict [])] ''type''
              = Some (PStr ''SELECT_FILE'') \<and>
            map_of [(''type'', PStr ''SELECT_FILE''), (''target'', PDict [])] ''target''
              = Some (PDict []) \<and>
            map_of [] ''path'' = (None :: pyval option)"
    by (simp add: ex_event_no_path_def)
  have h3: "\<forall>d. ex_event_upload = PDict d \<longrightarrow> map_of d ''type'' \<noteq> Some (PStr ''SELECT_FILE'')"
    by (simp add: ex_event_upload_def)
  note T1 = malformed_select_event_raises [OF l1 ex_component, of loaded_world]
  note T2 = malformed_select_event_raises [OF l2 ex_component, of loaded_world]
  note T3 = malformed_select_event_raises [OF l3 ex_component, of loaded_world]
  note r1 = T1 [THEN conjunct1, THEN spec, THEN mp, OF h1]
  note r2 = T2 [THEN conjunct2, THEN conjunct1, THEN spec, THEN spec, THEN mp, OF h2]
  note r3 = T3 [THEN conjunct2, THEN conjunct2, THEN mp, OF h3]
  have a: "snd (st_supabase_storage_browser (ex_externals ex_event_no_target) ex_supabase ''bkt'' None
          default_options loaded_world) = Inl (KeyError ''target'')"
    by (rule r1 [THEN conjunct1])
  have b: "select_condition ex_event_no_target (opt_select_filetype_ignores default_options) = Inr True"
    using r1 [THEN conjunct2] by (simp add: default_options_fields)
  have c: "snd (st_supabase_storage_browser (ex_externals ex_event_no_path) ex_supabase ''bkt'' None
          ex_options_ignoring loaded_world) = Inl (KeyError ''path'')"
    by (rule r2 [THEN conjunct1])
  have d: "select_condition ex_event_no_path (opt_select_filetype_ignores ex_options_ignoring)
     = Inl (KeyError ''path'')"
    using r2 [THEN conjunct2] by (simp add: ex_options_ignoring_fields)
  have e: "st_supabase_storage_browser (ex_externals ex_event_upload) ex_supabase ''bkt'' None
     default_options loaded_world = (loaded_world, Inr ex_event_upload)"
    using r3 by (simp add: default_options_fields emit_nil)
  show ?thesis
    by (rule conjI [OF a conjI [OF b conjI [OF c conjI [OF d e]]]])
qed

end
